theory Spec2Isabelle
  imports Main
begin

section \<open>Strings and numbers of the host language\<close>

text \<open>
  The program is TypeScript. Its strings are modelled as \<^typ>\<open>string\<close>; the few non-ASCII
  characters of the source text are written as their UTF-8 bytes, so that two source
  literals are equal here exactly when they are equal in the source.
\<close>

definition BOX :: string where \<comment> \<open>U+2610 BALLOT BOX\<close>
  "BOX = [CHR 0xE2, CHR 0x98, CHR 0x90]"

definition DEG :: string where \<comment> \<open>U+00B0 DEGREE SIGN\<close>
  "DEG = [CHR 0xC2, CHR 0xB0]"

definition SUP2 :: string where \<comment> \<open>U+00B2 SUPERSCRIPT TWO\<close>
  "SUP2 = [CHR 0xC2, CHR 0xB2]"

definition MIDDOT :: string where \<comment> \<open>U+00B7 MIDDLE DOT\<close>
  "MIDDOT = [CHR 0xC2, CHR 0xB7]"

definition NBSP :: string where \<comment> \<open>U+00A0, the entity nbsp of the JSX text\<close>
  "NBSP = [CHR 0xC2, CHR 0xA0]"

definition MINUS :: string where \<comment> \<open>U+2212 MINUS SIGN\<close>
  "MINUS = [CHR 0xE2, CHR 0x88, CHR 0x92]"

definition TIMES :: string where \<comment> \<open>U+00D7 MULTIPLICATION SIGN\<close>
  "TIMES = [CHR 0xC3, CHR 0x97]"

definition isDigit :: "char \<Rightarrow> bool" where \<comment> \<open>the class \<open>\d\<close>\<close>
  "isDigit c = (c \<in> set ''0123456789'')"

definition isUpper :: "char \<Rightarrow> bool" where \<comment> \<open>the class \<open>[A-Z]\<close>\<close>
  "isUpper c = (c \<in> set ''ABCDEFGHIJKLMNOPQRSTUVWXYZ'')"

definition isLower :: "char \<Rightarrow> bool" where \<comment> \<open>the class \<open>[a-z]\<close>\<close>
  "isLower c = (c \<in> set ''abcdefghijklmnopqrstuvwxyz'')"

definition isAlpha :: "char \<Rightarrow> bool" where \<comment> \<open>the class \<open>[A-Za-z]\<close>\<close>
  "isAlpha c = (isUpper c \<or> isLower c)"

definition isSpace :: "char \<Rightarrow> bool" where \<comment> \<open>the ASCII part of \<open>\s\<close>\<close>
  "isSpace c = (c \<in> set [CHR '' '', CHR 0x09, CHR 0x0A, CHR 0x0B, CHR 0x0C, CHR 0x0D])"

text \<open>
  \<open>toUpperCase\<close>, on the ASCII letters (the only letters the date patterns accept). This is
  exact inside \<open>toDmmmyyyy\<close>, where it is applied to a match of \<open>[A-Za-z]{3}\<close>. JavaScript
  also maps letters outside ASCII (U+00DF to \<open>SS\<close>, U+017F to \<open>S\<close>); the model leaves them as
  they are, so \<open>isValidDDMMMYYYY\<close> and \<open>normalizeDDMMMYYYY\<close>, which upper-case before they
  match, are modelled on ASCII strings only.
\<close>

definition upperChar :: "char \<Rightarrow> char" where
  "upperChar c =
     (case map_of (zip ''abcdefghijklmnopqrstuvwxyz'' ''ABCDEFGHIJKLMNOPQRSTUVWXYZ'') c of
        Some u \<Rightarrow> u
      | None \<Rightarrow> c)"

definition toUpperCase :: "string \<Rightarrow> string" where
  "toUpperCase s = map upperChar s"

text \<open>
  \<open>trim\<close>: leading and trailing white space removed. White space is the six ASCII
  characters of \<open>isSpace\<close>; JavaScript also counts U+00A0, U+FEFF and the Unicode space
  separators, which the model keeps, so \<open>trim\<close> is modelled on ASCII strings only.
\<close>

definition trim :: "string \<Rightarrow> string" where
  "trim s = rev (dropWhile isSpace (rev (dropWhile isSpace s)))"

text \<open>\<open>String(n)\<close> for an integral number: its decimal digits.\<close>

definition digitChar :: "nat \<Rightarrow> char" where
  "digitChar d = ''0123456789'' ! (d mod 10)"

function String_nat :: "nat \<Rightarrow> string" where
  "String_nat n = (if n < 10 then [digitChar n] else String_nat (n div 10) @ [digitChar n])"
  by pat_completeness auto
termination
  by (relation "measure id") auto

definition String_int :: "int \<Rightarrow> string" where
  "String_int i = (if i < 0 then ''-'' @ String_nat (nat (- i)) else String_nat (nat i))"

text \<open>\<open>s.padStart(2, "0")\<close>.\<close>

definition padStart2 :: "string \<Rightarrow> string" where
  "padStart2 s = replicate (2 - length s) (CHR ''0'') @ s"

text \<open>\<open>Number(s)\<close> for a string of decimal digits (the only strings it is applied to).\<close>

definition digitVal :: "char \<Rightarrow> nat" where
  "digitVal c = (case map_of (zip ''0123456789'' [0, 1, 2, 3, 4, 5, 6, 7, 8, 9]) c of
                   Some d \<Rightarrow> d
                 | None \<Rightarrow> 0)"

definition Number :: "string \<Rightarrow> nat" where
  "Number s = foldl (\<lambda>a c. 10 * a + digitVal c) 0 s"

text \<open>\<open>xs.indexOf(x)\<close>: the first index of \<open>x\<close>, or \<open>-1\<close>.\<close>

fun indexOf :: "'a list \<Rightarrow> 'a \<Rightarrow> int" where
  "indexOf [] x = - 1"
| "indexOf (y # ys) x =
     (if y = x then 0 else (let i = indexOf ys x in if i < 0 then - 1 else i + 1))"

section \<open>Date normalizer\<close>

definition MONTHS :: "string list" where
  "MONTHS = [''JAN'', ''FEB'', ''MAR'', ''APR'', ''MAY'', ''JUN'',
             ''JUL'', ''AUG'', ''SEP'', ''OCT'', ''NOV'', ''DEC'']"

text \<open>
  \<open>new Date(input)\<close> belongs to the JavaScript engine, not to the program: outside the ISO
  format its parser is implementation-defined. It is a parameter of the model: a function
  from the input string to the three local-time fields the program reads
  (\<open>getDate()\<close>, \<open>getMonth()\<close>, \<open>getFullYear()\<close>), or \<open>None\<close> when the date is invalid
  (\<open>isNaN(iso.getTime())\<close>).
\<close>

record JSDate =
  getDate :: nat
  getMonth :: nat
  getFullYear :: int

type_synonym DateCtor = "string \<Rightarrow> JSDate option"

text \<open>\<open>MONTHS[i]\<close> inside a template literal: an index out of range reads \<open>undefined\<close>.\<close>

definition monthAt :: "nat \<Rightarrow> string" where
  "monthAt i = (if i < length MONTHS then MONTHS ! i else ''undefined'')"

text \<open>The pattern \<open>/^(\d{2})-([A-Za-z]{3})-(\d{4})$/\<close>, with its three groups.\<close>

definition matchDMY :: "(char \<Rightarrow> bool) \<Rightarrow> string \<Rightarrow> (string \<times> string \<times> string) option" where
  "matchDMY letter s =
     (case s of
        [d1, d2, h1, m1, m2, m3, h2, y1, y2, y3, y4] \<Rightarrow>
          if isDigit d1 \<and> isDigit d2 \<and> h1 = CHR ''-''
             \<and> letter m1 \<and> letter m2 \<and> letter m3 \<and> h2 = CHR ''-''
             \<and> isDigit y1 \<and> isDigit y2 \<and> isDigit y3 \<and> isDigit y4
          then Some ([d1, d2], [m1, m2, m3], [y1, y2, y3, y4])
          else None
      | _ \<Rightarrow> None)"

definition toDmmmyyyy :: "DateCtor \<Rightarrow> string \<Rightarrow> string" where
  "toDmmmyyyy Date input =
     (case Date input of
        Some isoDate \<Rightarrow>
          (let dd = padStart2 (String_nat (getDate isoDate));
               m = monthAt (getMonth isoDate);
               yyyy = getFullYear isoDate
           in dd @ ''-'' @ m @ ''-'' @ String_int yyyy)
      | None \<Rightarrow>
          (case matchDMY isAlpha input of
             Some (dd, mon, yyyy) \<Rightarrow>
               (let idx = indexOf MONTHS (toUpperCase mon);
                    ndd = Number dd;
                    ny = Number yyyy
                in if idx \<ge> 0 \<and> ndd \<ge> 1 \<and> ndd \<le> 31 \<and> ny \<ge> 1900 \<and> ny \<le> 2100
                   then dd @ ''-'' @ toUpperCase mon @ ''-'' @ yyyy
                   else '''')
           | None \<Rightarrow> ''''))"

text \<open>The result type \<open>true | string\<close> of \<open>validateDmmmyyyy\<close>; a non-empty string is truthy.\<close>

datatype TrueOrString = TRUE | Message string

definition validateDmmmyyyy :: "DateCtor \<Rightarrow> string \<Rightarrow> TrueOrString" where
  "validateDmmmyyyy Date input =
     (let out = toDmmmyyyy Date input
      in if out \<noteq> '''' then TRUE else Message ''Use DD-MMM-YYYY (e.g., 28-AUG-2025)'')"

subsection \<open>The custom-visit variant: strict validation\<close>

definition isValidDDMMMYYYY :: "string \<Rightarrow> bool" where
  "isValidDDMMMYYYY s =
     (case matchDMY isUpper (toUpperCase (trim s)) of
        None \<Rightarrow> False
      | Some (m1, mon, m3) \<Rightarrow>
          (let dd = Number m1; yyyy = Number m3 in
           if yyyy < 1900 \<or> yyyy > 2100 then False
           else if mon \<notin> set MONTHS then False
           else if dd < 1 \<or> dd > 31 then False
           else if mon \<in> set [''APR'', ''JUN'', ''SEP'', ''NOV''] \<and> dd > 30 then False
           else if mon = ''FEB'' \<and> dd > 29 then False
           else True))"

text \<open>\<open>replace(/\s+/g, "")\<close> deletes all white space (here: the ASCII white space of
  \<open>isSpace\<close>, as for \<open>trim\<close>); \<open>replace(/[\/.]/g, "-")\<close> maps each slash and dot to a
  hyphen.\<close>

definition normalizeDDMMMYYYY :: "string \<Rightarrow> string" where
  "normalizeDDMMMYYYY input =
     (let up = filter (\<lambda>c. \<not> isSpace c) (toUpperCase input);
          withHyphens = map (\<lambda>c. if c = CHR ''/'' \<or> c = CHR ''.'' then CHR ''-'' else c) up
      in withHyphens)"

definition dateValid :: "string \<Rightarrow> bool" where
  "dateValid normalizedDate =
     (if normalizedDate \<noteq> '''' then isValidDDMMMYYYY normalizedDate else True)"

section \<open>Module catalog and module instances\<close>



text \<open>
  \<open>ModuleType\<close> is a union of string literals; at run time a tag is a string, and the
  selector's value is cast to the type unchecked. Tags are strings here, and the members of
  the union are listed.
\<close>

type_synonym ModuleType = string

definition ModuleTypes :: "ModuleType list" where
  "ModuleTypes = [''consent'', ''eligibility'', ''screening'', ''baseline'', ''vitals'',
                  ''ecg'', ''labs'', ''pk'', ''physicalExam'', ''neuroExam'']"

record ModuleInstance =
  inst_id :: string
  inst_type :: ModuleType
  title :: string
  repeatCount :: "int option"
  data :: "(string \<times> string) list option"

record LibraryEntry =
  lib_value :: ModuleType
  label :: string
  repeatable :: "bool option"

definition LIBRARY :: "LibraryEntry list" where
  "LIBRARY =
     [\<lparr>lib_value = ''vitals'', label = ''Vitals ('' @ DEG @ ''C/'' @ DEG @ ''F, HR, BP, etc.)'', repeatable = Some True\<rparr>,
      \<lparr>lib_value = ''ecg'', label = ''ECG (with Repeat / N/A option)'', repeatable = Some True\<rparr>,
      \<lparr>lib_value = ''labs'', label = ''Labs & Specimen Collection'', repeatable = None\<rparr>,
      \<lparr>lib_value = ''pk'', label = ''PK Collection (optional per protocol)'', repeatable = None\<rparr>,
      \<lparr>lib_value = ''physicalExam'', label = ''Physical Exam (Investigator)'', repeatable = None\<rparr>,
      \<lparr>lib_value = ''neuroExam'', label = ''Neurological Exam (Investigator)'', repeatable = None\<rparr>,
      \<lparr>lib_value = ''consent'', label = ''Informed Consent Checklist'', repeatable = None\<rparr>,
      \<lparr>lib_value = ''eligibility'', label = ''Eligibility Checklist'', repeatable = None\<rparr>,
      \<lparr>lib_value = ''screening'', label = ''Screening Visit'', repeatable = None\<rparr>,
      \<lparr>lib_value = ''baseline'', label = ''Baseline / Visit 1'', repeatable = None\<rparr>]"

text \<open>\<open>inst.repeatCount ?? 1\<close>.\<close>

definition repeatOr1 :: "ModuleInstance \<Rightarrow> int" where
  "repeatOr1 inst = (case repeatCount inst of None \<Rightarrow> 1 | Some n \<Rightarrow> n)"

section \<open>Export renderer\<close>

text \<open>
  A paragraph of the exported document keeps its kind and its text; spacing and alignment
  options are left out. \<open>Runs\<close> is a paragraph built from text runs, \<open>L\<close> the bold one.
\<close>

datatype TextRun = L string | TextRun string

datatype Paragraph =
    SectionHeading string
  | Para string
  | Bullet string
  | Heading1 string
  | Runs "TextRun list"

fun runText :: "TextRun \<Rightarrow> string" where
  "runText (L t) = t"
| "runText (TextRun t) = t"

fun paraText :: "Paragraph \<Rightarrow> string" where
  "paraText (SectionHeading t) = t"
| "paraText (Para t) = t"
| "paraText (Bullet t) = t"
| "paraText (Heading1 t) = t"
| "paraText (Runs rs) = concat (map runText rs)"

definition buildModuleDocx :: "ModuleInstance \<Rightarrow> Paragraph list" where
  "buildModuleDocx inst =
     [SectionHeading (title inst)] @
     (if inst_type inst = ''vitals'' then
        (let n = repeatOr1 inst in
         [Para (''Position: Sitting '' @ BOX @ ''  Supine '' @ BOX @ ''  Standing '' @ BOX @ ''   Device: ______'')] @
         concat (map (\<lambda>i.
           [Para (''Reading '' @ String_int i),
            Bullet (''Time ____:____  HR ___  BP ___/___  RR ___  Temp ___'' @ DEG @ ''C (___'' @ DEG @ ''F)  SpO2 ___%''),
            Bullet (''Weight ___ kg  Height ___ cm  BMI ___ kg/m'' @ SUP2 @ ''  (omit if remote)'')]) [1..n]) @
         [Para ''Investigator (print/sign/date): ________________________________''])
      else if inst_type inst = ''ecg'' then
        (let n = repeatOr1 inst in
         [Para ''12-lead ECG per protocol. Record times & any repeats.''] @
         map (\<lambda>i.
           Para (''ECG '' @ String_int i @ '':  Date '' @ ''____-___-____'' @
                 ''  Time ____:____  QTc ___ ms  Rhythm ____.  Repeat? Yes '' @ BOX @
                 ''  No '' @ BOX @ ''  N/A '' @ BOX)) [1..n] @
         [Para ''Investigator (print/sign/date): ________________________________''])
      else if inst_type inst = ''labs'' then
        [Bullet ''Specimen | Date | Time | Fasting? | Volume | Tube | Collected By | Processed? | Centrifuge | Frozen Temp | Shipped? | Courier | Notes'']
      else if inst_type inst = ''pk'' then
        [Para ''PK per protocol (only if required).'',
         Bullet ''Timepoint | Actual Time | Volume | Tube/Label | Handling | Notes'']
      else if inst_type inst = ''physicalExam'' then
        [Para ''Focused/Full Physical Exam (check systems, document abnormals):'',
         Bullet ''General | HEENT | Cardiac | Respiratory | Abdomen | Musculoskeletal | Skin'',
         Para ''Findings / Notes: _______________________________________________________________'',
         Para ''Investigator (print/sign/date): ________________________________'']
      else if inst_type inst = ''neuroExam'' then
        [Para ''Neurological Exam (document abnormals/changes):'',
         Bullet ''Mental status | Cranial nerves | Motor | Sensory | Reflexes | Coordination | Gait'',
         Para ''Findings / Notes: _______________________________________________________________'',
         Para ''Investigator (print/sign/date): ________________________________'']
      else if inst_type inst = ''consent'' then
        [Para ''ICF Version/Date: __________    IRB: __________'',
         Bullet ''Private area used; identity verified'',
         Bullet ''Provided IRB-approved ICF and time to review'',
         Bullet ''Discussed purpose, procedures, risks/benefits, alternatives'',
         Bullet ''Questions answered; no coercion/undue influence'',
         Bullet ''Assessed comprehension (teach-back)'',
         Bullet ''Signatures obtained before any procedures'',
         Para ''Signature Times (24-hr): Participant ____:____  LAR ____:____  Person Obtaining Consent ____:____'']
      else if inst_type inst = ''eligibility'' then
        [Para ''INCLUSION CRITERIA:'',
         Bullet (''1) ______________________    Met '' @ BOX @ ''    Not Met '' @ BOX @ ''    Evidence: __________''),
         Bullet (''2) ______________________    Met '' @ BOX @ ''    Not Met '' @ BOX @ ''    Evidence: __________''),
         Bullet (''3) ______________________    Met '' @ BOX @ ''    Not Met '' @ BOX @ ''    Evidence: __________''),
         Para ''EXCLUSION CRITERIA:'',
         Bullet (''1) ______________________    Absent '' @ BOX @ ''    Present (exclusion) '' @ BOX @ ''    Evidence: __________''),
         Bullet (''2) ______________________    Absent '' @ BOX @ ''    Present (exclusion) '' @ BOX @ ''    Evidence: __________''),
         Bullet (''3) ______________________    Absent '' @ BOX @ ''    Present (exclusion) '' @ BOX @ ''    Evidence: __________'')]
      else if inst_type inst = ''screening'' then
        [Bullet (''Pre-consent procedures performed: None '' @ BOX @ ''  (If any) __________''),
         Bullet ''Medical history obtained; updates documented'',
         Bullet ''Physical exam performed; abnormal findings documented'',
         Bullet ''Vitals (HR/BP/RR/Temp/SpO2/Wt/Ht)'',
         Bullet ''Con meds reviewed; changes recorded'',
         Bullet ''Labs/ECG per protocol; collection times recorded'']
      else if inst_type inst = ''baseline'' then
        [Bullet (''Randomization performed?  Yes '' @ BOX @ ''  No '' @ BOX @ ''    Code: ______''),
         Bullet ''Visit procedures completed per protocol'',
         Bullet ''Study drug/device dispensed; lot/kit/qty/exp recorded'',
         Bullet ''Instructions provided (dose, storage, diary)'']
      else [])"

section \<open>Preview renderer\<close>

text \<open>
  The preview is a tree of elements and text. Attributes (class names, tool tips) and event
  handlers are left out; a fragment contributes its children to its parent; a condition
  that is false renders nothing.
\<close>

datatype jsx = Txt string | El string "jsx list"

fun texts :: "jsx \<Rightarrow> string list" where
  "texts (Txt s) = [s]"
| "texts (El tag cs) = concat (map texts cs)"

definition textContent :: "jsx \<Rightarrow> string" where
  "textContent j = concat (texts j)"

text \<open>\<open>Array.from({ length: n }).map((_, i) => f i)\<close>: the indices \<open>0, ..., n - 1\<close>.\<close>

definition ModuleCardBody :: "ModuleInstance \<Rightarrow> jsx list" where
  "ModuleCardBody inst =
     (if inst_type inst = ''vitals'' then
        [El ''div'' [Txt ''Position: '',
                     El ''span'' [Txt (''Sitting '' @ BOX @ ''  Supine '' @ BOX @ ''  Standing '' @ BOX)],
                     Txt '' Device: ______''],
         El ''div'' (map (\<lambda>i.
           El ''div''
             [El ''div'' [Txt ''Reading '', Txt (String_int (i + 1))],
              El ''div'' [Txt (''Time ____:____  HR ___  BP ___/___  RR ___  Temp ___'' @ DEG @ ''C (___'' @ DEG @ ''F)  SpO2 ___%'')],
              El ''div'' [Txt (''Weight ___ kg  Height ___ cm  BMI ___ kg/m'' @ SUP2 @ ''  (omit if remote)'')]]) [0..repeatOr1 inst - 1]),
         El ''div'' [Txt ''Investigator (print/sign/date): ________________________________'']]
      else []) @
     (if inst_type inst = ''ecg'' then
        [El ''div'' [Txt ''12-lead ECG per protocol. Record times & any repeats.''],
         El ''div'' (map (\<lambda>i.
           El ''div''
             [El ''div'' [Txt ''ECG '', Txt (String_int (i + 1))],
              El ''div'' [Txt (''Date ____-___-____  Time ____:____  QTc ___ ms  Rhythm ____.  Repeat? Yes '' @ BOX @ ''  No '' @ BOX @ ''  N/A '' @ BOX)]]) [0..repeatOr1 inst - 1]),
         El ''div'' [Txt ''Investigator (print/sign/date): ________________________________'']]
      else []) @
     (if inst_type inst = ''labs'' then
        [El ''div'' [Txt ''Specimen | Date | Time | Fasting? | Volume | Tube | Collected By | Processed? | Centrifuge | Frozen Temp | Shipped? | Courier | Notes'']]
      else []) @
     (if inst_type inst = ''pk'' then
        [El ''div'' [Txt ''PK per protocol (only if required). Timepoint | Actual Time | Volume | Tube/Label | Handling | Notes'']]
      else []) @
     (if inst_type inst = ''physicalExam'' then
        [El ''div'' [Txt ''Focused/Full Physical Exam (document abnormals):''],
         El ''div'' [Txt (''General '' @ MIDDOT @ '' HEENT '' @ MIDDOT @ '' Cardiac '' @ MIDDOT @ '' Respiratory '' @ MIDDOT @ '' Abdomen '' @ MIDDOT @ '' Musculoskeletal '' @ MIDDOT @ '' Skin''),
                     El ''div'' [Txt ''Findings / Notes: _____________________________________________'']],
         El ''div'' [Txt ''Investigator (print/sign/date): ________________________________'']]
      else []) @
     (if inst_type inst = ''neuroExam'' then
        [El ''div'' [Txt ''Neurological Exam (document abnormals/changes):''],
         El ''div'' [Txt (''Mental status '' @ MIDDOT @ '' Cranial nerves '' @ MIDDOT @ '' Motor '' @ MIDDOT @ '' Sensory '' @ MIDDOT @ '' Reflexes '' @ MIDDOT @ '' Coordination '' @ MIDDOT @ '' Gait''),
                     El ''div'' [Txt ''Findings / Notes: _____________________________________________'']],
         El ''div'' [Txt ''Investigator (print/sign/date): ________________________________'']]
      else []) @
     (if inst_type inst = ''consent'' then
        [El ''div''
           [Txt (''ICF Version/Date: __________ '' @ NBSP @ NBSP @ '' IRB: __________''),
            El ''ul''
              [El ''li'' [Txt ''Private area used; identity verified''],
               El ''li'' [Txt ''Provided IRB-approved ICF and time to review''],
               El ''li'' [Txt ''Discussed purpose, procedures, risks/benefits, alternatives''],
               El ''li'' [Txt ''Questions answered; no coercion/undue influence''],
               El ''li'' [Txt ''Assessed comprehension (teach-back)''],
               El ''li'' [Txt ''Signatures obtained before any procedures'']],
            El ''div'' [Txt ''Signature Times (24-hr): Participant ____:____  LAR ____:____  POC ____:____'']]]
      else []) @
     (if inst_type inst = ''eligibility'' then
        [El ''div''
           [El ''div'' [Txt ''Inclusion Criteria''],
            El ''ul''
              [El ''li'' [Txt (''1) ______________________ '' @ NBSP @ NBSP @ '' Met '' @ BOX @ ''  Not Met '' @ BOX @ ''  Evidence: __________'')],
               El ''li'' [Txt (''2) ______________________ '' @ NBSP @ NBSP @ '' Met '' @ BOX @ ''  Not Met '' @ BOX @ ''  Evidence: __________'')],
               El ''li'' [Txt (''3) ______________________ '' @ NBSP @ NBSP @ '' Met '' @ BOX @ ''  Not Met '' @ BOX @ ''  Evidence: __________'')]],
            El ''div'' [Txt ''Exclusion Criteria''],
            El ''ul''
              [El ''li'' [Txt (''1) ______________________ '' @ NBSP @ NBSP @ '' Absent '' @ BOX @ ''  Present (exclusion) '' @ BOX @ ''  Evidence: __________'')],
               El ''li'' [Txt (''2) ______________________ '' @ NBSP @ NBSP @ '' Absent '' @ BOX @ ''  Present (exclusion) '' @ BOX @ ''  Evidence: __________'')],
               El ''li'' [Txt (''3) ______________________ '' @ NBSP @ NBSP @ '' Absent '' @ BOX @ ''  Present (exclusion) '' @ BOX @ ''  Evidence: __________'')]]]]
      else []) @
     (if inst_type inst = ''screening'' then
        [El ''div''
           [El ''ul''
              [El ''li'' [Txt (''Pre-consent procedures performed: None '' @ BOX @ ''  (If any) __________'')],
               El ''li'' [Txt ''Medical history obtained; updates documented''],
               El ''li'' [Txt ''Physical exam performed; abnormal findings documented''],
               El ''li'' [Txt ''Vitals (HR/BP/RR/Temp/SpO2/Wt/Ht)''],
               El ''li'' [Txt ''Labs/ECG per protocol; collection times recorded'']]]]
      else []) @
     (if inst_type inst = ''baseline'' then
        [El ''div''
           [El ''ul''
              [El ''li'' [Txt (''Randomization performed?  Yes '' @ BOX @ ''  No '' @ BOX @ ''    Code: ______'')],
               El ''li'' [Txt ''Visit procedures completed per protocol''],
               El ''li'' [Txt ''Study drug/device dispensed; lot/kit/qty/exp recorded''],
               El ''li'' [Txt ''Instructions provided (dose, storage, diary)'']]]]
      else [])"

definition ModuleCard :: "ModuleInstance \<Rightarrow> jsx" where
  "ModuleCard inst =
     El ''div''
       [El ''div''
          [El ''div'' [Txt (title inst)],
           El ''div''
             ((if inst_type inst = ''vitals'' \<or> inst_type inst = ''ecg'' then
                 [El ''div''
                    [El ''span'' [Txt ''Repeat''],
                     El ''button'' [Txt MINUS],
                     El ''span'' [Txt (String_int (repeatOr1 inst)), Txt TIMES],
                     El ''button'' [Txt ''+'']]]
               else []) @
              [El ''button'' [Txt ''Remove'']])],
        El ''div'' (ModuleCardBody inst)]"


section \<open>Module instance store\<close>

text \<open>
  The three operations hand an updater to \<open>setMods\<close>; each is modelled by its updater, a
  function of the instance list. A thrown exception is a value of type \<open>error\<close>.
\<close>

datatype error = TypeError

text \<open>
  \<open>addModule\<close> reads the selector state \<open>toAdd\<close> and calls \<open>newId()\<close>, which is
  \<open>Math.random().toString(36).slice(2, 9)\<close>: the string it returns at this call is the
  argument \<open>newId\<close>. \<open>LIBRARY.find(...)!\<close> asserts only to the type checker that an entry was
  found; on \<open>undefined\<close>, reading \<open>meta.value\<close> throws a \<open>TypeError\<close>.
\<close>

definition addModule :: "ModuleType \<Rightarrow> string \<Rightarrow> ModuleInstance list \<Rightarrow> error + ModuleInstance list" where
  "addModule toAdd newId m =
     (case find (\<lambda>l. lib_value l = toAdd) LIBRARY of
        None \<Rightarrow> Inl TypeError
      | Some meta \<Rightarrow>
          Inr (m @
            [\<lparr>inst_id = newId,
              inst_type = lib_value meta,
              title = label meta,
              repeatCount = (if repeatable meta = Some True then Some 1 else None),
              data = Some []\<rparr>]))"

definition removeModule :: "string \<Rightarrow> ModuleInstance list \<Rightarrow> ModuleInstance list" where
  "removeModule i m = filter (\<lambda>x. inst_id x \<noteq> i) m"

text \<open>
  The repeat count is a JavaScript number (a double); the only callers pass \<open>-1\<close> and \<open>+1\<close>
  to a count that starts at 1, so the counts are integers, and they are modelled as
  \<^typ>\<open>int\<close>. A fractional delta, or a count beyond \<open>2^53\<close> where doubles round, is outside
  the model.
\<close>

definition changeRepeat :: "string \<Rightarrow> int \<Rightarrow> ModuleInstance list \<Rightarrow> ModuleInstance list" where
  "changeRepeat i delta m =
     map (\<lambda>x.
       if inst_id x = i \<and> (inst_type x = ''vitals'' \<or> inst_type x = ''ecg'')
       then x\<lparr>repeatCount := Some (max 1 (repeatOr1 x + delta))\<rparr>
       else x) m"

text \<open>The instance lists the user can produce, starting from the empty list.\<close>

inductive reachable :: "ModuleInstance list \<Rightarrow> bool" where
  initial: "reachable []"
| added: "reachable m \<Longrightarrow> addModule t newId m = Inr m' \<Longrightarrow> reachable m'"
| removed: "reachable m \<Longrightarrow> reachable (removeModule i m)"
| changed: "reachable m \<Longrightarrow> reachable (changeRepeat i delta m)"

section \<open>Export document\<close>










section \<open>Application state and the export action\<close>

text \<open>The four state variables of the component (\<open>useState\<close>).\<close>

record AppState =
  st_fields :: "string \<rightharpoonup> string"
  st_mods :: "ModuleInstance list"
  st_toAdd :: ModuleType
  st_msg :: "string option"



definition clearMsg :: "AppState \<Rightarrow> AppState" where
  "clearMsg s = s\<lparr>st_msg := None\<rparr>"

section \<open>Preview of the header and of the whole document\<close>





section \<open>JavaScript engines for concrete runs\<close>

text \<open>
  For runs on concrete inputs the parameter \<open>Date\<close> is instantiated with a model of an
  engine on the two shapes of string the program is meant for.
  \<^item> \<open>YYYY-MM-DD\<close> is the date-only form of the ECMAScript date-time string format: it
    denotes midnight UTC of that day. The fields the program reads are local-time fields,
    so in a zone behind UTC (\<open>offsetMinutes < 0\<close>) they are those of the day before.
  \<^item> \<open>DD-MON-YYYY\<close> is not in the standard format; an engine may reject it, or accept it
    with its own parser (\<open>legacy\<close>). The accepting parser modelled here reads it as local
    time, admits days 1 to 31 for every month, and carries a day beyond the end of the
    month into the next month, as V8 does.

  Every other string is unparsed in the model. A real engine parses more (V8 also accepts
  \<open>Aug 28, 2025\<close> or \<open>28-AUG-25\<close>), so the model is used only at strings of these two shapes
  and at strings that no engine parses; the general statements are about every \<open>Date\<close>.
\<close>

definition isLeapYear :: "int \<Rightarrow> bool" where
  "isLeapYear y = (if y mod 400 = 0 then True else if y mod 100 = 0 then False else y mod 4 = 0)"

definition DaysInMonth :: "int \<Rightarrow> nat \<Rightarrow> nat" where \<comment> \<open>months are numbered from 0\<close>
  "DaysInMonth y m =
     (if m = 1 then (if isLeapYear y then 29 else 28)
      else if m \<in> set [3, 5, 8, 10] then 30 else 31)"

definition matchISO :: "string \<Rightarrow> (int \<times> nat \<times> nat) option" where
  "matchISO s =
     (case s of
        [y1, y2, y3, y4, h1, m1, m2, h2, d1, d2] \<Rightarrow>
          if isDigit y1 \<and> isDigit y2 \<and> isDigit y3 \<and> isDigit y4 \<and> h1 = CHR ''-''
             \<and> isDigit m1 \<and> isDigit m2 \<and> h2 = CHR ''-'' \<and> isDigit d1 \<and> isDigit d2
          then (let y = int (Number [y1, y2, y3, y4]); m = Number [m1, m2]; d = Number [d1, d2]
                in if 1 \<le> m \<and> m \<le> 12 \<and> 1 \<le> d \<and> d \<le> DaysInMonth y (m - 1)
                   then Some (y, m - 1, d) else None)
          else None
      | _ \<Rightarrow> None)"

definition dayBefore :: "int \<times> nat \<times> nat \<Rightarrow> int \<times> nat \<times> nat" where
  "dayBefore ymd =
     (case ymd of (y, m, d) \<Rightarrow>
        if d > 1 then (y, m, d - 1)
        else if m > 0 then (y, m - 1, DaysInMonth y (m - 1))
        else (y - 1, 11, 31))"

definition carryDay :: "int \<times> nat \<times> nat \<Rightarrow> int \<times> nat \<times> nat" where
  "carryDay ymd =
     (case ymd of (y, m, d) \<Rightarrow>
        if d \<le> DaysInMonth y m then (y, m, d) else (y, m + 1, d - DaysInMonth y m))"

definition legacyDMY :: "string \<Rightarrow> (int \<times> nat \<times> nat) option" where
  "legacyDMY s =
     (case matchDMY isAlpha s of
        None \<Rightarrow> None
      | Some (dd, mon, yyyy) \<Rightarrow>
          (let idx = indexOf MONTHS (toUpperCase mon); d = Number dd in
           if idx \<ge> 0 \<and> 1 \<le> d \<and> d \<le> 31
           then Some (carryDay (int (Number yyyy), nat idx, d))
           else None))"

definition toJSDate :: "int \<times> nat \<times> nat \<Rightarrow> JSDate" where
  "toJSDate ymd = (case ymd of (y, m, d) \<Rightarrow> \<lparr>getDate = d, getMonth = m, getFullYear = y\<rparr>)"

definition engine :: "int \<Rightarrow> bool \<Rightarrow> DateCtor" where
  "engine offsetMinutes legacy s =
     (case matchISO s of
        Some ymd \<Rightarrow> Some (toJSDate (if offsetMinutes < 0 then dayBefore ymd else ymd))
      | None \<Rightarrow> if legacy then map_option toJSDate (legacyDMY s) else None)"

section \<open>Notions the properties are stated with\<close>

text \<open>
  A type is repeatable when its catalog entry says so. (\<open>changeRepeat\<close> and the preview test
  the tag against \<open>vitals\<close> and \<open>ecg\<close> instead.)
\<close>

definition isRepeatable :: "ModuleType \<Rightarrow> bool" where
  "isRepeatable t =
     (case find (\<lambda>l. lib_value l = t) LIBRARY of
        None \<Rightarrow> False
      | Some meta \<Rightarrow> repeatable meta = Some True)"

text \<open>Every instance of a repeatable type carries a repeat count of at least 1.\<close>

definition repeatInvariant :: "ModuleInstance list \<Rightarrow> bool" where
  "repeatInvariant m =
     list_all (\<lambda>x. if isRepeatable (inst_type x)
                    then (case repeatCount x of None \<Rightarrow> False | Some n \<Rightarrow> 1 \<le> n)
                    else True) m"

text \<open>\<open>s.includes(p)\<close>: the string \<open>p\<close> occurs in \<open>s\<close>.\<close>

fun startsWith :: "string \<Rightarrow> string \<Rightarrow> bool" where
  "startsWith s [] = True"
| "startsWith [] (p # ps) = False"
| "startsWith (c # cs) (p # ps) = (c = p \<and> startsWith cs ps)"

fun occursIn :: "string \<Rightarrow> string \<Rightarrow> bool" where
  "occursIn [] p = (p = [])"
| "occursIn (c # cs) p = (startsWith (c # cs) p \<or> occursIn cs p)"

text \<open>
  A string in canonical form, in the words of the specification: a two-digit day from 01 to
  31, an upper-case month of the twelve, a four-digit year from 1900 to 2100.
\<close>

definition canonical :: "string \<Rightarrow> bool" where
  "canonical s =
     (case s of
        [d1, d2, h1, m1, m2, m3, h2, y1, y2, y3, y4] \<Rightarrow>
          isDigit d1 \<and> isDigit d2 \<and> h1 = CHR ''-'' \<and> [m1, m2, m3] \<in> set MONTHS
          \<and> h2 = CHR ''-'' \<and> isDigit y1 \<and> isDigit y2 \<and> isDigit y3 \<and> isDigit y4
          \<and> 1 \<le> Number [d1, d2] \<and> Number [d1, d2] \<le> 31
          \<and> 1900 \<le> Number [y1, y2, y3, y4] \<and> Number [y1, y2, y3, y4] \<le> 2100
      | _ \<Rightarrow> False)"

section \<open>The date normalizer and the export gate\<close>

lemma toDmmmyyyy_parsed:
  "Date s = Some d \<Longrightarrow>
   toDmmmyyyy Date s =
     padStart2 (String_nat (getDate d)) @ ''-'' @ monthAt (getMonth d) @ ''-'' @
     String_int (getFullYear d)"
  by (simp add: toDmmmyyyy_def)

lemma toDmmmyyyy_parsed_nonempty: "Date s = Some d \<Longrightarrow> toDmmmyyyy Date s \<noteq> ''''"
  using toDmmmyyyy_parsed[of Date s d] by simp

lemma validate_TRUE_iff: "validateDmmmyyyy Date s = TRUE \<longleftrightarrow> toDmmmyyyy Date s \<noteq> ''''"
  by (simp add: validateDmmmyyyy_def)





























lemma feb31_nonempty: "toDmmmyyyy Date ''31-FEB-2025'' \<noteq> ''''"
proof (cases "Date ''31-FEB-2025''")
  case None
  then show ?thesis
    by (simp add: toDmmmyyyy_def matchDMY_def isDigit_def isAlpha_def isUpper_def isLower_def
        toUpperCase_def upperChar_def MONTHS_def Number_def digitVal_def)
next
  case (Some d)
  then show ?thesis by (rule toDmmmyyyy_parsed_nonempty)
qed

lemma feb31_unparsed:
  "Date ''31-FEB-2025'' = None \<Longrightarrow> toDmmmyyyy Date ''31-FEB-2025'' = ''31-FEB-2025''"
  by (simp add: toDmmmyyyy_def matchDMY_def isDigit_def isAlpha_def isUpper_def isLower_def
      toUpperCase_def upperChar_def MONTHS_def Number_def digitVal_def)

lemma feb31_strict_invalid:
  "\<not> isValidDDMMMYYYY ''31-FEB-2025'' \<and> \<not> dateValid (normalizeDDMMMYYYY ''31-FEB-2025'')"
  by code_simp

text \<open>
  Claim C2, as stated, fails: \<open>toDmmmyyyy\<close> does not reject \<open>31-FEB-2025\<close>. An engine that
  does not parse the string leaves it to the pattern, which checks the day against 31 only
  and returns the string; an engine that carries the day over returns \<open>03-MAR-2025\<close>.
\<close>

theorem feb31_not_rejected_by_normalizer:
  "toDmmmyyyy (engine 0 False) ''31-FEB-2025'' = ''31-FEB-2025''
   \<and> toDmmmyyyy (engine 0 True) ''31-FEB-2025'' = ''03-MAR-2025''"
  by code_simp

text \<open>
  Claim C2, amended. Only the strict validator of the custom-visit variant
  (\<open>isValidDDMMMYYYY\<close>, after \<open>normalizeDDMMMYYYY\<close>) rejects \<open>31-FEB-2025\<close>, by its cap of 29 days
  for February. With every engine, \<open>toDmmmyyyy\<close> returns a non-empty string for it and
  \<open>validateDmmmyyyy\<close> returns \<open>true\<close>; when the engine does not parse the string, the result is
  the string itself.
\<close>

theorem feb31_rejected_only_by_strict_validator:
  "\<not> isValidDDMMMYYYY ''31-FEB-2025''
   \<and> \<not> dateValid (normalizeDDMMMYYYY ''31-FEB-2025'')
   \<and> toDmmmyyyy Date ''31-FEB-2025'' \<noteq> ''''
   \<and> validateDmmmyyyy Date ''31-FEB-2025'' = TRUE
   \<and> (Date ''31-FEB-2025'' = None \<longrightarrow> toDmmmyyyy Date ''31-FEB-2025'' = ''31-FEB-2025'')"
  using feb31_strict_invalid feb31_nonempty[of Date] feb31_unparsed[of Date]
  by (simp add: validate_TRUE_iff)

text \<open>Claim C2, amended, on an engine that knows the ISO format only.\<close>

theorem feb31_rejected_only_by_strict_validator_witness:
  "engine 0 False ''31-FEB-2025'' = None
   \<and> toDmmmyyyy (engine 0 False) ''31-FEB-2025'' = ''31-FEB-2025''
   \<and> validateDmmmyyyy (engine 0 False) ''31-FEB-2025'' = TRUE
   \<and> \<not> isValidDDMMMYYYY ''31-FEB-2025''"
proof -
  have unparsed: "engine 0 False ''31-FEB-2025'' = None"
    by code_simp
  from feb31_rejected_only_by_strict_validator[of "engine 0 False"] unparsed
  show ?thesis by simp
qed

section \<open>The module instance store\<close>

lemma isRepeatable_iff: "isRepeatable t \<longleftrightarrow> t = ''vitals'' \<or> t = ''ecg''"
  by (simp add: isRepeatable_def LIBRARY_def)

lemma find_LIBRARY_value:
  "find (\<lambda>l. lib_value l = t) LIBRARY = Some meta \<Longrightarrow> lib_value meta = t"
  by (auto simp: find_Some_iff)

lemma ModuleTypes_all_found:
  "list_all (\<lambda>t. find (\<lambda>l. lib_value l = t) LIBRARY \<noteq> None) ModuleTypes"
  by code_simp

lemma ModuleTypes_found:
  "t \<in> set ModuleTypes \<Longrightarrow> find (\<lambda>l. lib_value l = t) LIBRARY \<noteq> None"
  using ModuleTypes_all_found by (simp add: list_all_iff)

lemma addModule_found:
  assumes "find (\<lambda>l. lib_value l = t) LIBRARY = Some meta"
  shows "addModule t newId m =
           Inr (m @ [\<lparr>inst_id = newId, inst_type = t, title = label meta,
                      repeatCount = (if repeatable meta = Some True then Some 1 else None),
                      data = Some []\<rparr>])"
  using assms find_LIBRARY_value[OF assms] by (simp add: addModule_def)

lemma addModule_not_found:
  "find (\<lambda>l. lib_value l = t) LIBRARY = None \<Longrightarrow> addModule t newId m = Inl TypeError"
  by (simp add: addModule_def)

lemma addModule_repeatInvariant:
  assumes "repeatInvariant m" and "addModule t newId m = Inr m'"
  shows "repeatInvariant m'"
proof (cases "find (\<lambda>l. lib_value l = t) LIBRARY")
  case None
  with assms(2) show ?thesis by (simp add: addModule_not_found)
next
  case (Some meta)
  have rep: "isRepeatable t \<longleftrightarrow> repeatable meta = Some True"
    by (simp add: isRepeatable_def Some)
  from assms(2) have "m' = m @ [\<lparr>inst_id = newId, inst_type = t, title = label meta,
                      repeatCount = (if repeatable meta = Some True then Some 1 else None),
                      data = Some []\<rparr>]"
    by (simp add: addModule_found[OF Some])
  with assms(1) rep show ?thesis
    by (simp add: repeatInvariant_def)
qed

lemma removeModule_repeatInvariant: "repeatInvariant m \<Longrightarrow> repeatInvariant (removeModule i m)"
  by (simp add: repeatInvariant_def removeModule_def list_all_iff)

lemma changeRepeat_repeatInvariant:
  "repeatInvariant m \<Longrightarrow> repeatInvariant (changeRepeat i delta m)"
  by (induction m) (simp_all add: repeatInvariant_def changeRepeat_def)

lemma reachable_repeatInvariant: "reachable m \<Longrightarrow> repeatInvariant m"
proof (induction rule: reachable.induct)
  case initial
  show ?case by (simp add: repeatInvariant_def)
next
  case (added m t newId m')
  then show ?case by (blast intro: addModule_repeatInvariant)
next
  case (removed m i)
  then show ?case by (simp add: removeModule_repeatInvariant)
next
  case (changed m i delta)
  then show ?case by (simp add: changeRepeat_repeatInvariant)
qed

lemma changeRepeat_by_stored_count:
  "changeRepeat i delta m =
     map (\<lambda>x. if inst_id x = i \<and> isRepeatable (inst_type x)
               then x\<lparr>repeatCount :=
                      Some (max 1 ((case repeatCount x of None \<Rightarrow> 1 | Some c \<Rightarrow> c) + delta))\<rparr>
               else x) m"
  by (auto simp: changeRepeat_def isRepeatable_iff repeatOr1_def)

lemma changeRepeat_floor:
  assumes "y \<in> set (changeRepeat i delta m)" and "inst_id y = i"
    and "isRepeatable (inst_type y)"
  shows "\<exists>n. repeatCount y = Some n \<and> 1 \<le> n"
proof -
  from assms(1) obtain x where x: "x \<in> set m"
    and y: "y = (if inst_id x = i \<and> isRepeatable (inst_type x)
                 then x\<lparr>repeatCount :=
                        Some (max 1 ((case repeatCount x of None \<Rightarrow> 1 | Some c \<Rightarrow> c) + delta))\<rparr>
                 else x)"
    by (auto simp: changeRepeat_by_stored_count)
  show ?thesis
  proof (cases "inst_id x = i \<and> isRepeatable (inst_type x)")
    case True
    with y show ?thesis by simp
  next
    case False
    with y assms(2,3) show ?thesis by simp
  qed
qed

lemma changeRepeat_noop:
  assumes "\<forall>x\<in>set m. inst_id x = i \<longrightarrow> \<not> isRepeatable (inst_type x)"
  shows "changeRepeat i delta m = m"
  unfolding changeRepeat_by_stored_count
  by (rule map_idI) (use assms in auto)

lemma changeRepeat_decrement_at_1:
  assumes "inst_id x = i" and "isRepeatable (inst_type x)"
    and "repeatCount x = Some 1 \<or> repeatCount x = None"
  shows "changeRepeat i (- 1) [x] = [x\<lparr>repeatCount := Some 1\<rparr>]"
  using assms by (auto simp: changeRepeat_by_stored_count)

lemma removeModule_unique:
  assumes "inst_id x = i" and "i \<notin> inst_id ` set xs" and "i \<notin> inst_id ` set ys"
  shows "removeModule i (xs @ x # ys) = xs @ ys"
proof -
  have "filter (\<lambda>x. inst_id x \<noteq> i) xs = xs" and "filter (\<lambda>x. inst_id x \<noteq> i) ys = ys"
    using assms(2,3) by (auto simp: filter_id_conv)
  with assms(1) show ?thesis by (simp add: removeModule_def)
qed

lemma removeModule_absent: "i \<notin> inst_id ` set m \<Longrightarrow> removeModule i m = m"
  by (auto simp: removeModule_def filter_id_conv)

lemma removeModule_none_left: "i \<notin> inst_id ` set (removeModule i m)"
  by (auto simp: removeModule_def)

lemma removeModule_others_kept:
  "filter (\<lambda>x. inst_id x \<noteq> i) (removeModule i m) = filter (\<lambda>x. inst_id x \<noteq> i) m"
  by (simp add: removeModule_def)

lemma removeModule_length:
  "length (removeModule i m) + length (filter (\<lambda>x. inst_id x = i) m) = length m"
  using sum_length_filter_compl[of "\<lambda>x. inst_id x = i" m]
  by (simp add: removeModule_def)

text \<open>
  Claim C6, as stated, fails in the freshness of the id: \<open>newId()\<close> is a random string and
  nothing compares it with the ids in the store. When \<open>Math.random()\<close> returns 0.5 twice,
  \<open>newId()\<close> is \<open>i\<close> both times, and the second instance gets the id of the first.
\<close>

theorem addModule_id_not_fresh:
  "addModule ''vitals'' ''i'' [] =
     Inr [\<lparr>inst_id = ''i'', inst_type = ''vitals'',
           title = ''Vitals ('' @ DEG @ ''C/'' @ DEG @ ''F, HR, BP, etc.)'',
           repeatCount = Some 1, data = Some []\<rparr>]
   \<and> addModule ''ecg'' ''i''
        [\<lparr>inst_id = ''i'', inst_type = ''vitals'',
          title = ''Vitals ('' @ DEG @ ''C/'' @ DEG @ ''F, HR, BP, etc.)'',
          repeatCount = Some 1, data = Some []\<rparr>] =
     Inr [\<lparr>inst_id = ''i'', inst_type = ''vitals'',
           title = ''Vitals ('' @ DEG @ ''C/'' @ DEG @ ''F, HR, BP, etc.)'',
           repeatCount = Some 1, data = Some []\<rparr>,
          \<lparr>inst_id = ''i'', inst_type = ''ecg'', title = ''ECG (with Repeat / N/A option)'',
           repeatCount = Some 1, data = Some []\<rparr>]"
  by (simp add: addModule_def LIBRARY_def)

text \<open>
  Claim C6, amended. For a tag with a catalog entry, \<open>addModule\<close> appends exactly one
  instance at the end of the list and changes no existing one; its id is the string
  \<open>newId()\<close> returned, its type the tag, its title the label of the entry, its repeat count
  1 if the entry is repeatable and absent otherwise. The id is fresh only when \<open>newId()\<close>
  returned a string that no instance of the store has; then distinct ids stay distinct.
\<close>

theorem addModule_appends:
  assumes "find (\<lambda>l. lib_value l = t) LIBRARY = Some meta"
  shows "addModule t newId m =
           Inr (m @ [\<lparr>inst_id = newId, inst_type = t, title = label meta,
                      repeatCount = (if repeatable meta = Some True then Some 1 else None),
                      data = Some []\<rparr>])
         \<and> (distinct (map inst_id m) \<and> newId \<notin> inst_id ` set m \<longrightarrow>
              distinct (map inst_id
                (m @ [\<lparr>inst_id = newId, inst_type = t, title = label meta,
                       repeatCount = (if repeatable meta = Some True then Some 1 else None),
                       data = Some []\<rparr>])))"
  using addModule_found[OF assms] by simp

text \<open>Claim C6, amended, for a first ECG module with the id \<open>k3x9a0q\<close>.\<close>

theorem addModule_appends_witness:
  "addModule ''ecg'' ''k3x9a0q'' [] =
     Inr [\<lparr>inst_id = ''k3x9a0q'', inst_type = ''ecg'',
           title = ''ECG (with Repeat / N/A option)'', repeatCount = Some 1,
           data = Some []\<rparr>]"
proof -
  have entry: "find (\<lambda>l. lib_value l = ''ecg'') LIBRARY =
                 Some \<lparr>lib_value = ''ecg'', label = ''ECG (with Repeat / N/A option)'',
                       repeatable = Some True\<rparr>"
    by (simp add: LIBRARY_def)
  from addModule_appends[OF entry, of "''k3x9a0q''" "[]"] show ?thesis by simp
qed

text \<open>
  Claim C7. For an instance of a repeatable type with the given id, \<open>changeRepeat\<close> sets the
  repeat count to \<open>max 1 (current + delta)\<close>, where \<open>current\<close> is the stored repeat count (1
  when none is stored); every other instance is unchanged. So a stored count \<open>n\<close> becomes
  \<open>max 1 (n + delta)\<close>, the new count is at least 1, and decrementing at 1 leaves 1. When no
  instance with that id is of a repeatable type, the list is unchanged. In every reachable
  instance list each instance of a repeatable type has a repeat count of at least 1.
\<close>

theorem repeat_count_floor:
  "changeRepeat i delta m =
     map (\<lambda>x. if inst_id x = i \<and> isRepeatable (inst_type x)
               then x\<lparr>repeatCount :=
                      Some (max 1 ((case repeatCount x of None \<Rightarrow> 1 | Some c \<Rightarrow> c) + delta))\<rparr>
               else x) m
   \<and> (inst_id x = i \<and> isRepeatable (inst_type x) \<and> repeatCount x = Some n \<longrightarrow>
        changeRepeat i delta [x] = [x\<lparr>repeatCount := Some (max 1 (n + delta))\<rparr>])
   \<and> (\<forall>y\<in>set (changeRepeat i delta m).
        inst_id y = i \<and> isRepeatable (inst_type y) \<longrightarrow> (\<exists>n. repeatCount y = Some n \<and> 1 \<le> n))
   \<and> (inst_id x = i \<and> isRepeatable (inst_type x)
        \<and> (repeatCount x = Some 1 \<or> repeatCount x = None) \<longrightarrow>
        changeRepeat i (- 1) [x] = [x\<lparr>repeatCount := Some 1\<rparr>])
   \<and> ((\<forall>x\<in>set m. inst_id x = i \<longrightarrow> \<not> isRepeatable (inst_type x)) \<longrightarrow>
        changeRepeat i delta m = m)
   \<and> (reachable m \<longrightarrow> repeatInvariant m)"
proof (intro conjI)
  show "changeRepeat i delta m =
     map (\<lambda>x. if inst_id x = i \<and> isRepeatable (inst_type x)
               then x\<lparr>repeatCount :=
                      Some (max 1 ((case repeatCount x of None \<Rightarrow> 1 | Some c \<Rightarrow> c) + delta))\<rparr>
               else x) m"
    by (rule changeRepeat_by_stored_count)
  show "inst_id x = i \<and> isRepeatable (inst_type x) \<and> repeatCount x = Some n \<longrightarrow>
        changeRepeat i delta [x] = [x\<lparr>repeatCount := Some (max 1 (n + delta))\<rparr>]"
    by (simp add: changeRepeat_by_stored_count)
  show "\<forall>y\<in>set (changeRepeat i delta m).
        inst_id y = i \<and> isRepeatable (inst_type y) \<longrightarrow> (\<exists>n. repeatCount y = Some n \<and> 1 \<le> n)"
    using changeRepeat_floor[of _ i delta m] by blast
  show "inst_id x = i \<and> isRepeatable (inst_type x)
        \<and> (repeatCount x = Some 1 \<or> repeatCount x = None) \<longrightarrow>
        changeRepeat i (- 1) [x] = [x\<lparr>repeatCount := Some 1\<rparr>]"
  proof (intro impI, elim conjE)
    assume "inst_id x = i" and "isRepeatable (inst_type x)"
      and "repeatCount x = Some 1 \<or> repeatCount x = None"
    then show "changeRepeat i (- 1) [x] = [x\<lparr>repeatCount := Some 1\<rparr>]"
      by (rule changeRepeat_decrement_at_1)
  qed
  show "(\<forall>x\<in>set m. inst_id x = i \<longrightarrow> \<not> isRepeatable (inst_type x)) \<longrightarrow>
        changeRepeat i delta m = m"
    using changeRepeat_noop[of m i delta] by blast
  show "reachable m \<longrightarrow> repeatInvariant m"
    using reachable_repeatInvariant[of m] by blast
qed

text \<open>
  Claim C7, for a vitals module: just added, its count is 1 and decrementing leaves 1; at
  the stored count 3, incrementing gives 4, decrementing gives 2, and a delta of \<open>-5\<close> stops
  at 1. A labs module with the same id is left as it is.
\<close>

theorem repeat_count_floor_witness:
  "reachable [\<lparr>inst_id = ''k3x9a0q'', inst_type = ''vitals'',
               title = ''Vitals ('' @ DEG @ ''C/'' @ DEG @ ''F, HR, BP, etc.)'',
               repeatCount = Some 1, data = Some []\<rparr>]
   \<and> repeatInvariant
        [\<lparr>inst_id = ''k3x9a0q'', inst_type = ''vitals'',
          title = ''Vitals ('' @ DEG @ ''C/'' @ DEG @ ''F, HR, BP, etc.)'',
          repeatCount = Some 1, data = Some []\<rparr>]
   \<and> changeRepeat ''k3x9a0q'' (- 1)
        [\<lparr>inst_id = ''k3x9a0q'', inst_type = ''vitals'',
          title = ''Vitals ('' @ DEG @ ''C/'' @ DEG @ ''F, HR, BP, etc.)'',
          repeatCount = Some 1, data = Some []\<rparr>] =
       [\<lparr>inst_id = ''k3x9a0q'', inst_type = ''vitals'',
         title = ''Vitals ('' @ DEG @ ''C/'' @ DEG @ ''F, HR, BP, etc.)'',
         repeatCount = Some 1, data = Some []\<rparr>]
   \<and> changeRepeat ''k3x9a0q'' 1
        [\<lparr>inst_id = ''k3x9a0q'', inst_type = ''vitals'',
          title = ''Vitals ('' @ DEG @ ''C/'' @ DEG @ ''F, HR, BP, etc.)'',
          repeatCount = Some 3, data = Some []\<rparr>] =
       [\<lparr>inst_id = ''k3x9a0q'', inst_type = ''vitals'',
         title = ''Vitals ('' @ DEG @ ''C/'' @ DEG @ ''F, HR, BP, etc.)'',
         repeatCount = Some 4, data = Some []\<rparr>]
   \<and> changeRepeat ''k3x9a0q'' (- 1)
        [\<lparr>inst_id = ''k3x9a0q'', inst_type = ''vitals'',
          title = ''Vitals ('' @ DEG @ ''C/'' @ DEG @ ''F, HR, BP, etc.)'',
          repeatCount = Some 3, data = Some []\<rparr>] =
       [\<lparr>inst_id = ''k3x9a0q'', inst_type = ''vitals'',
         title = ''Vitals ('' @ DEG @ ''C/'' @ DEG @ ''F, HR, BP, etc.)'',
         repeatCount = Some 2, data = Some []\<rparr>]
   \<and> changeRepeat ''k3x9a0q'' (- 5)
        [\<lparr>inst_id = ''k3x9a0q'', inst_type = ''vitals'',
          title = ''Vitals ('' @ DEG @ ''C/'' @ DEG @ ''F, HR, BP, etc.)'',
          repeatCount = Some 3, data = Some []\<rparr>] =
       [\<lparr>inst_id = ''k3x9a0q'', inst_type = ''vitals'',
         title = ''Vitals ('' @ DEG @ ''C/'' @ DEG @ ''F, HR, BP, etc.)'',
         repeatCount = Some 1, data = Some []\<rparr>]
   \<and> changeRepeat ''k3x9a0q'' 1
        [\<lparr>inst_id = ''k3x9a0q'', inst_type = ''labs'', title = ''Labs & Specimen Collection'',
          repeatCount = None, data = Some []\<rparr>] =
       [\<lparr>inst_id = ''k3x9a0q'', inst_type = ''labs'', title = ''Labs & Specimen Collection'',
         repeatCount = None, data = Some []\<rparr>]"
proof -
  let ?x = "\<lparr>inst_id = ''k3x9a0q'', inst_type = ''vitals'',
             title = ''Vitals ('' @ DEG @ ''C/'' @ DEG @ ''F, HR, BP, etc.)'',
             repeatCount = Some 1, data = Some []\<rparr>"
  let ?y = "\<lparr>inst_id = ''k3x9a0q'', inst_type = ''vitals'',
             title = ''Vitals ('' @ DEG @ ''C/'' @ DEG @ ''F, HR, BP, etc.)'',
             repeatCount = Some 3, data = Some []\<rparr>"
  let ?l = "\<lparr>inst_id = ''k3x9a0q'', inst_type = ''labs'', title = ''Labs & Specimen Collection'',
             repeatCount = None, data = Some []\<rparr>"
  have "addModule ''vitals'' ''k3x9a0q'' [] = Inr [?x]"
    by (simp add: addModule_def LIBRARY_def)
  with reachable.initial have reach: "reachable [?x]"
    by (rule reachable.added)
  have at1: "inst_id ?x = ''k3x9a0q'' \<and> isRepeatable (inst_type ?x)
      \<and> (repeatCount ?x = Some 1 \<or> repeatCount ?x = None)"
    by (simp add: isRepeatable_iff)
  have at3: "inst_id ?y = ''k3x9a0q'' \<and> isRepeatable (inst_type ?y) \<and> repeatCount ?y = Some 3"
    by (simp add: isRepeatable_iff)
  have labs: "\<forall>x\<in>set [?l]. inst_id x = ''k3x9a0q'' \<longrightarrow> \<not> isRepeatable (inst_type x)"
    by (simp add: isRepeatable_iff)
  note first = repeat_count_floor[of "''k3x9a0q''" "- 1" "[?x]" ?x 1]
  note invariant = first[THEN conjunct2, THEN conjunct2, THEN conjunct2, THEN conjunct2,
      THEN conjunct2, THEN mp, OF reach]
  note floor = first[THEN conjunct2, THEN conjunct2, THEN conjunct2, THEN conjunct1,
      THEN mp, OF at1]
  note up = repeat_count_floor[of "''k3x9a0q''" 1 "[?y]" ?y 3,
      THEN conjunct2, THEN conjunct1, THEN mp, OF at3]
  note down = repeat_count_floor[of "''k3x9a0q''" "- 1" "[?y]" ?y 3,
      THEN conjunct2, THEN conjunct1, THEN mp, OF at3]
  note stop = repeat_count_floor[of "''k3x9a0q''" "- 5" "[?y]" ?y 3,
      THEN conjunct2, THEN conjunct1, THEN mp, OF at3]
  note other = repeat_count_floor[of "''k3x9a0q''" 1 "[?l]" ?l 1,
      THEN conjunct2, THEN conjunct2, THEN conjunct2, THEN conjunct2, THEN conjunct1,
      THEN mp, OF labs]
  from reach invariant floor up down stop other show ?thesis
    by simp
qed

text \<open>
  Claim C8, as stated, fails when several instances have the given id: \<open>removeModule\<close> is a
  filter on the id and removes all of them. The list of a vitals and an ECG module that both
  got the id \<open>i\<close> from \<open>newId()\<close> can be produced by \<open>addModule\<close>; removing \<open>i\<close> empties it, so
  the list is shorter by two, and the other instance with the id is not kept.
\<close>

theorem removeModule_removes_all_with_id:
  "reachable
     [\<lparr>inst_id = ''i'', inst_type = ''vitals'',
       title = ''Vitals ('' @ DEG @ ''C/'' @ DEG @ ''F, HR, BP, etc.)'',
       repeatCount = Some 1, data = Some []\<rparr>,
      \<lparr>inst_id = ''i'', inst_type = ''ecg'', title = ''ECG (with Repeat / N/A option)'',
       repeatCount = Some 1, data = Some []\<rparr>]
   \<and> removeModule ''i''
       [\<lparr>inst_id = ''i'', inst_type = ''vitals'',
         title = ''Vitals ('' @ DEG @ ''C/'' @ DEG @ ''F, HR, BP, etc.)'',
         repeatCount = Some 1, data = Some []\<rparr>,
        \<lparr>inst_id = ''i'', inst_type = ''ecg'', title = ''ECG (with Repeat / N/A option)'',
         repeatCount = Some 1, data = Some []\<rparr>] = []
   \<and> length (removeModule ''i''
       [\<lparr>inst_id = ''i'', inst_type = ''vitals'',
         title = ''Vitals ('' @ DEG @ ''C/'' @ DEG @ ''F, HR, BP, etc.)'',
         repeatCount = Some 1, data = Some []\<rparr>,
        \<lparr>inst_id = ''i'', inst_type = ''ecg'', title = ''ECG (with Repeat / N/A option)'',
         repeatCount = Some 1, data = Some []\<rparr>]) + 2 =
     length
       [\<lparr>inst_id = ''i'', inst_type = ''vitals'',
         title = ''Vitals ('' @ DEG @ ''C/'' @ DEG @ ''F, HR, BP, etc.)'',
         repeatCount = Some 1, data = Some []\<rparr>,
        \<lparr>inst_id = ''i'', inst_type = ''ecg'', title = ''ECG (with Repeat / N/A option)'',
         repeatCount = Some 1, data = Some []\<rparr>]"
proof -
  let ?v = "\<lparr>inst_id = ''i'', inst_type = ''vitals'',
             title = ''Vitals ('' @ DEG @ ''C/'' @ DEG @ ''F, HR, BP, etc.)'',
             repeatCount = Some 1, data = Some []\<rparr>"
  let ?e = "\<lparr>inst_id = ''i'', inst_type = ''ecg'', title = ''ECG (with Repeat / N/A option)'',
             repeatCount = Some 1, data = Some []\<rparr>"
  have "addModule ''vitals'' ''i'' [] = Inr [?v]"
    by (simp add: addModule_def LIBRARY_def)
  with reachable.initial have one: "reachable [?v]"
    by (rule reachable.added)
  have "addModule ''ecg'' ''i'' [?v] = Inr [?v, ?e]"
    by (simp add: addModule_def LIBRARY_def)
  with one have two: "reachable [?v, ?e]"
    by (rule reachable.added)
  have gone: "removeModule ''i'' [?v, ?e] = []"
    by (simp add: removeModule_def)
  from two gone show ?thesis
    by simp
qed

text \<open>
  Claim C8, amended. \<open>removeModule\<close> deletes every instance with the given id and nothing
  else: no instance with the id is left, the instances with another id are the same, in the
  same order and unchanged, and the list is shorter by the number of instances that had the
  id. So when exactly one instance has the id, that instance is deleted and the list is one
  shorter; when no instance has the id, the list, and so its length, is unchanged.
\<close>

theorem removeModule_deletes_instance:
  "(inst_id x = i \<and> i \<notin> inst_id ` set xs \<and> i \<notin> inst_id ` set ys \<longrightarrow>
      removeModule i (xs @ x # ys) = xs @ ys
      \<and> length (removeModule i (xs @ x # ys)) = length (xs @ x # ys) - 1)
   \<and> (i \<notin> inst_id ` set m \<longrightarrow>
        removeModule i m = m \<and> length (removeModule i m) = length m)
   \<and> i \<notin> inst_id ` set (removeModule i m)
   \<and> filter (\<lambda>x. inst_id x \<noteq> i) (removeModule i m) = filter (\<lambda>x. inst_id x \<noteq> i) m
   \<and> length (removeModule i m) + length (filter (\<lambda>x. inst_id x = i) m) = length m"
  using removeModule_unique[of x i xs ys] removeModule_absent[of i m]
    removeModule_none_left[of i m] removeModule_others_kept[of i m] removeModule_length[of i m]
  by simp

text \<open>
  Claim C8, amended, for a list of three instances with distinct ids: the middle one is
  removed, then nothing.
\<close>

theorem removeModule_deletes_instance_witness:
  "removeModule ''b''
     [\<lparr>inst_id = ''a'', inst_type = ''labs'', title = ''Labs'', repeatCount = None, data = None\<rparr>,
      \<lparr>inst_id = ''b'', inst_type = ''ecg'', title = ''ECG'', repeatCount = Some 3, data = None\<rparr>,
      \<lparr>inst_id = ''c'', inst_type = ''pk'', title = ''PK'', repeatCount = None, data = None\<rparr>] =
     [\<lparr>inst_id = ''a'', inst_type = ''labs'', title = ''Labs'', repeatCount = None, data = None\<rparr>,
      \<lparr>inst_id = ''c'', inst_type = ''pk'', title = ''PK'', repeatCount = None, data = None\<rparr>]
   \<and> removeModule ''b''
       [\<lparr>inst_id = ''a'', inst_type = ''labs'', title = ''Labs'', repeatCount = None, data = None\<rparr>,
        \<lparr>inst_id = ''c'', inst_type = ''pk'', title = ''PK'', repeatCount = None, data = None\<rparr>] =
       [\<lparr>inst_id = ''a'', inst_type = ''labs'', title = ''Labs'', repeatCount = None, data = None\<rparr>,
        \<lparr>inst_id = ''c'', inst_type = ''pk'', title = ''PK'', repeatCount = None, data = None\<rparr>]"
proof -
  let ?a = "\<lparr>inst_id = ''a'', inst_type = ''labs'', title = ''Labs'', repeatCount = None,
             data = None\<rparr>"
  let ?b = "\<lparr>inst_id = ''b'', inst_type = ''ecg'', title = ''ECG'', repeatCount = Some 3,
             data = None\<rparr>"
  let ?c = "\<lparr>inst_id = ''c'', inst_type = ''pk'', title = ''PK'', repeatCount = None,
             data = None\<rparr>"
  have one: "inst_id ?b = ''b'' \<and> ''b'' \<notin> inst_id ` set [?a] \<and> ''b'' \<notin> inst_id ` set [?c]"
    by simp
  have none: "''b'' \<notin> inst_id ` set [?a, ?c]"
    by simp
  from removeModule_deletes_instance[of ?b "''b''" "[?a]" "[?c]" "[?a, ?c]"] one none
  show ?thesis by simp
qed

text \<open>
  Claim C9, as stated, fails: with a tag that has no catalog entry, \<open>addModule\<close> is not a
  no-op and reports nothing; reading \<open>meta.value\<close> of the missing entry throws a \<open>TypeError\<close>.
\<close>

theorem addModule_unknown_tag_throws:
  "addModule ''adverseEvents'' ''k3x9a0q'' [] = Inl TypeError"
  by (simp add: addModule_def LIBRARY_def)

text \<open>
  Claim C9, amended. A tag without a catalog entry makes \<open>addModule\<close> throw a \<open>TypeError\<close>,
  and no new instance list is produced. The case does not arise for a tag of the type
  \<open>ModuleType\<close>: every member of the union has a catalog entry, and then \<open>addModule\<close> returns a
  list.
\<close>

theorem addModule_unknown_tag:
  "(t \<notin> lib_value ` set LIBRARY \<longrightarrow> addModule t newId m = Inl TypeError)
   \<and> (t \<in> set ModuleTypes \<longrightarrow> (\<exists>m'. addModule t newId m = Inr m'))"
proof (intro conjI impI)
  assume "t \<notin> lib_value ` set LIBRARY"
  then have "find (\<lambda>l. lib_value l = t) LIBRARY = None"
    by (auto simp: find_None_iff)
  then show "addModule t newId m = Inl TypeError"
    by (rule addModule_not_found)
next
  assume "t \<in> set ModuleTypes"
  then obtain meta where "find (\<lambda>l. lib_value l = t) LIBRARY = Some meta"
    using ModuleTypes_found by blast
  then show "\<exists>m'. addModule t newId m = Inr m'"
    by (simp add: addModule_found)
qed

text \<open>Claim C9, amended, for the tag \<open>adverseEvents\<close> of another variant of the application.\<close>

theorem addModule_unknown_tag_witness:
  "''adverseEvents'' \<notin> lib_value ` set LIBRARY
   \<and> addModule ''adverseEvents'' ''k3x9a0q''
        [\<lparr>inst_id = ''a'', inst_type = ''labs'', title = ''Labs'', repeatCount = None,
          data = None\<rparr>] = Inl TypeError"
proof -
  have unknown: "''adverseEvents'' \<notin> lib_value ` set LIBRARY"
    by (simp add: LIBRARY_def)
  from addModule_unknown_tag[of "''adverseEvents''" "''k3x9a0q''"
      "[\<lparr>inst_id = ''a'', inst_type = ''labs'', title = ''Labs'', repeatCount = None,
         data = None\<rparr>]"] unknown
  show ?thesis by simp
qed

section \<open>Normalizing on a concrete engine\<close>

lemma matchISO_aug28: "matchISO ''2025-08-28'' = Some (2025, 7, 28)"
  by code_simp

lemma iso_date_by_zone:
  "toDmmmyyyy (engine offsetMinutes legacy) ''2025-08-28'' =
     (if offsetMinutes < 0 then ''27-AUG-2025'' else ''28-AUG-2025'')"
proof -
  have west: "toDmmmyyyy (\<lambda>s. Some (toJSDate (dayBefore (2025, 7, 28)))) ''2025-08-28'' =
                ''27-AUG-2025''"
    by code_simp
  have east: "toDmmmyyyy (\<lambda>s. Some (toJSDate (2025, 7, 28))) ''2025-08-28'' = ''28-AUG-2025''"
    by code_simp
  have "toDmmmyyyy (engine offsetMinutes legacy) ''2025-08-28'' =
          toDmmmyyyy (\<lambda>s. Some (toJSDate (if offsetMinutes < 0 then dayBefore (2025, 7, 28)
                                           else (2025, 7, 28)))) ''2025-08-28''"
    by (simp add: toDmmmyyyy_def engine_def matchISO_aug28)
  with west east show ?thesis by simp
qed

text \<open>
  Claim C3 on an engine whose local time is four hours behind UTC (New York in summer):
  \<open>2025-08-28\<close> is midnight UTC, which is the evening of 27 August there, and the
  normalizer reads the local fields. The input \<open>28-AUG-2025\<close> is kept.
\<close>

theorem iso_date_shifts_west_of_utc:
  "toDmmmyyyy (engine (- 240) True) ''2025-08-28'' = ''27-AUG-2025''
   \<and> toDmmmyyyy (engine (- 240) True) ''28-AUG-2025'' = ''28-AUG-2025''"
  by code_simp

lemma month_facts:
  assumes "mon \<in> set MONTHS"
  shows "toUpperCase mon = mon" and "indexOf MONTHS mon \<ge> 0"
  using assms by (auto simp: MONTHS_def toUpperCase_def upperChar_def)

lemma month_letters:
  assumes "[a, b, c] \<in> set MONTHS"
  shows "isAlpha a \<and> isAlpha b \<and> isAlpha c"
  using assms by (auto simp: MONTHS_def isAlpha_def isUpper_def)

lemma canonical_shape:
  assumes "canonical s"
  obtains d1 d2 m1 m2 m3 y1 y2 y3 y4 where
    "s = [d1, d2, CHR ''-'', m1, m2, m3, CHR ''-'', y1, y2, y3, y4]"
    "isDigit d1" "isDigit d2" "[m1, m2, m3] \<in> set MONTHS"
    "isDigit y1" "isDigit y2" "isDigit y3" "isDigit y4"
    "1 \<le> Number [d1, d2]" "Number [d1, d2] \<le> 31"
    "1900 \<le> Number [y1, y2, y3, y4]" "Number [y1, y2, y3, y4] \<le> 2100"
  using assms by (auto simp: canonical_def split: list.splits)

text \<open>
  Where the engine does not parse a canonical string, the pattern branch returns it
  unchanged: the normalizer is idempotent there.
\<close>

lemma canonical_idempotent_unparsed:
  assumes "canonical s" and "Date s = None"
  shows "toDmmmyyyy Date s = s"
proof -
  from assms(1) obtain d1 d2 m1 m2 m3 y1 y2 y3 y4 where
    s: "s = [d1, d2, CHR ''-'', m1, m2, m3, CHR ''-'', y1, y2, y3, y4]"
    and d: "isDigit d1" "isDigit d2" and mon: "[m1, m2, m3] \<in> set MONTHS"
    and y: "isDigit y1" "isDigit y2" "isDigit y3" "isDigit y4"
    and rng: "1 \<le> Number [d1, d2]" "Number [d1, d2] \<le> 31"
      "1900 \<le> Number [y1, y2, y3, y4]" "Number [y1, y2, y3, y4] \<le> 2100"
    by (rule canonical_shape)
  have m: "matchDMY isAlpha s = Some ([d1, d2], [m1, m2, m3], [y1, y2, y3, y4])"
    using d y month_letters[OF mon] by (simp add: s matchDMY_def)
  show ?thesis
    using assms(2) rng month_facts[OF mon]
    by (simp add: toDmmmyyyy_def m) (simp add: s)
qed

text \<open>
  Claim C4 on an engine that parses \<open>DD-MON-YYYY\<close> itself: the canonical string
  \<open>29-FEB-2025\<close>, which also passes the strict validator, is parsed before the pattern is
  tried, the day is carried into March, and the normalizer returns another string.
\<close>

theorem canonical_feb29_not_kept:
  "canonical ''29-FEB-2025''
   \<and> isValidDDMMMYYYY ''29-FEB-2025''
   \<and> toDmmmyyyy (engine 0 True) ''29-FEB-2025'' = ''01-MAR-2025''"
  by code_simp

section \<open>The two renderers\<close>

text \<open>
  For a labs module and for a baseline module the paragraphs of the export after the
  heading carry the same texts as the body of the preview card.
\<close>

lemma labs_and_baseline_agree:
  assumes "inst_type inst = ''labs'' \<or> inst_type inst = ''baseline''"
  shows "map paraText (tl (buildModuleDocx inst)) = texts (El ''div'' (ModuleCardBody inst))"
  using assms by (auto simp: buildModuleDocx_def ModuleCardBody_def)

text \<open>The consent module: the last prompt of the export is abbreviated in the preview.\<close>

lemma consent_signature_prompt_differs:
  "''Signature Times (24-hr): Participant ____:____  LAR ____:____  Person Obtaining Consent ____:____''
     \<in> set (map paraText (buildModuleDocx
          \<lparr>inst_id = ''k3x9a0q'', inst_type = ''consent'', title = ''Informed Consent Checklist'',
           repeatCount = None, data = Some []\<rparr>))
   \<and> ''Signature Times (24-hr): Participant ____:____  LAR ____:____  Person Obtaining Consent ____:____''
     \<notin> set (texts (ModuleCard
          \<lparr>inst_id = ''k3x9a0q'', inst_type = ''consent'', title = ''Informed Consent Checklist'',
           repeatCount = None, data = Some []\<rparr>))"
  by code_simp

text \<open>
  Claim C1 on the screening module that \<open>addModule\<close> creates: the export has the prompt
  \<open>Con meds reviewed; changes recorded\<close>; the preview card has no such text, and the prompt
  does not occur anywhere in the text of the card.
\<close>

theorem screening_prompt_missing_from_preview:
  "addModule ''screening'' ''k3x9a0q'' [] =
     Inr [\<lparr>inst_id = ''k3x9a0q'', inst_type = ''screening'', title = ''Screening Visit'',
           repeatCount = None, data = Some []\<rparr>]
   \<and> ''Con meds reviewed; changes recorded''
       \<in> set (map paraText (buildModuleDocx
            \<lparr>inst_id = ''k3x9a0q'', inst_type = ''screening'', title = ''Screening Visit'',
             repeatCount = None, data = Some []\<rparr>))
   \<and> ''Con meds reviewed; changes recorded''
       \<notin> set (texts (ModuleCard
            \<lparr>inst_id = ''k3x9a0q'', inst_type = ''screening'', title = ''Screening Visit'',
             repeatCount = None, data = Some []\<rparr>))
   \<and> \<not> occursIn
         (textContent (ModuleCard
            \<lparr>inst_id = ''k3x9a0q'', inst_type = ''screening'', title = ''Screening Visit'',
             repeatCount = None, data = Some []\<rparr>))
         ''Con meds reviewed; changes recorded''"
  by code_simp

end
